theory Spec2Isabelle
  imports Main
begin

text \<open>
  The appointment lifecycle and the access control of the SpeakToMe back end: the
  appointment model and controller over the tables of \<open>serverspm.session.sql\<close>, the
  token functions and the authentication and authorization middlewares, the appointment
  routes, and the profile update of the authentication controller. A table is the list
  of its rows; a function that writes takes the table and returns the new one; the clock
  is a parameter, in seconds.
\<close>

section \<open>Values and replies\<close>

text \<open>
  A value read from a JSON request body or handed to a function as an optional
  argument: absent (\<open>undefined\<close>), JSON \<open>null\<close>, or a value.
\<close>

datatype 'a js = Undefined | Null | Val 'a

text \<open>JavaScript truthiness of numbers and strings (\<open>!x\<close> is its negation).\<close>

definition truthy_num :: "nat option \<Rightarrow> bool" where
  "truthy_num x = (case x of None \<Rightarrow> False | Some n \<Rightarrow> n \<noteq> 0)"

definition truthy_str :: "string option \<Rightarrow> bool" where
  "truthy_str x = (case x of None \<Rightarrow> False | Some s \<Rightarrow> s \<noteq> [])"

text \<open>
  What a rejected promise of \<open>query\<close> carries. \<open>query\<close> calls \<open>pool.execute\<close>, the
  prepared-statement interface of the driver, which refuses a bind parameter that is
  \<open>undefined\<close> before anything reaches the server. The server refuses a statement
  that does not parse or names no column, and a row that breaks a \<open>NOT NULL\<close>,
  \<open>UNIQUE\<close> or \<open>FOREIGN KEY\<close> constraint of \<open>serverspm.session.sql\<close>. The widths of
  the columns are not modelled: a value is stored as it is given.
\<close>

datatype error =
    BindUndefined
  | SqlSyntax
  | UnknownColumn string
  | NotNullViolation
  | DupEntry
  | ForeignKey
  | AppError string

text \<open>
  What a controller does with a request: \<open>res.status(code).json(...)\<close> with the
  \<open>data\<close> member of the body when there is one, or \<open>next(error)\<close>.
\<close>

datatype 'a response = Json nat "'a option" | Next error

section \<open>The tables\<close>

text \<open>A row of \<open>users\<close> (the interface \<open>User\<close>).\<close>

record user =
  user_id :: nat
  email :: string
  password_hash :: string
  first_name :: string
  last_name :: string
  phone :: "string option"
  avatar_url :: "string option"
  role_id :: nat
  is_active :: bool
  is_verified :: bool
  email_verified_at :: "nat option"
  user_created_at :: nat
  user_updated_at :: nat
  last_login :: "nat option"

text \<open>\<open>UserModel.findById\<close>\<close>

definition UserModel_findById :: "user list \<Rightarrow> nat \<Rightarrow> user option" where
  "UserModel_findById users i = find (\<lambda>u. user_id u = i) users"

text \<open>Whether an id is the key of a row of \<open>users\<close>, as a foreign key asks.\<close>

definition user_exists :: "user list \<Rightarrow> nat \<Rightarrow> bool" where
  "user_exists users i = (UserModel_findById users i \<noteq> None)"

text \<open>
  Rows of the seed \<open>INSERT INTO roles\<close>: id and name.
\<close>

definition roles_seed :: "(nat \<times> string) list" where
  "roles_seed = [(1, ''TL_MAYOR''), (2, ''PSYCHOLOGIST''), (3, ''STUDENT'')]"

text \<open>
  Rows of the seed \<open>INSERT INTO status_types\<close> of \<open>serverspm.session.sql\<close>:
  id, name, category.
\<close>

definition status_types :: "(nat \<times> string \<times> string) list" where
  "status_types =
    [(1, ''PENDING'', ''appointment''),
     (2, ''ASSIGNED'', ''appointment''),
     (3, ''COMPLETED'', ''appointment''),
     (4, ''CANCELLED'', ''appointment''),
     (5, ''LOGIN'', ''auth''),
     (6, ''LOGOUT'', ''auth''),
     (7, ''ACCOUNT_CREATED'', ''account''),
     (8, ''MESSAGE_SENT'', ''message''),
     (9, ''PROFILE_UPDATED'', ''account'')]"

text \<open>\<open>SELECT id FROM status_types WHERE name IN (...) AND category = 'appointment'\<close>\<close>

definition status_ids_named :: "string list \<Rightarrow> nat list" where
  "status_ids_named names =
     map fst (filter (\<lambda>(i, n, c). n \<in> set names \<and> c = ''appointment'') status_types)"

text \<open>The same query for one name, first row (\<open>LIMIT 1\<close>, or a scalar subquery).\<close>

definition status_id_by_name :: "string \<Rightarrow> nat option" where
  "status_id_by_name name =
     (case status_ids_named [name] of [] \<Rightarrow> None | i # _ \<Rightarrow> Some i)"


text \<open>
  The \<open>status_name\<close> that \<open>AppointmentModel.findById\<close> joins to a row
  (\<open>LEFT JOIN status_types s ON a.status_id = s.id\<close>): the name of the status with
  that id, if there is one.
\<close>

definition status_name :: "nat \<Rightarrow> string option" where
  "status_name i =
     (case filter (\<lambda>(j, n, c). j = i) status_types of [] \<Rightarrow> None | (j, n, c) # _ \<Rightarrow> Some n)"

text \<open>
  A row of \<open>appointments\<close> (the interface \<open>Appointment\<close>). Its \<open>student_id\<close> and
  \<open>psychologist_id\<close> are foreign keys on \<open>users\<close>, its \<open>status_id\<close> on
  \<open>status_types\<close>. Dates and times of day are the strings the code passes around,
  equal when the server finds them equal; timestamps are seconds of the clock.
\<close>

record appointment =
  appt_id :: nat
  student_id :: nat
  psychologist_id :: "nat option"
  scheduled_date :: string
  scheduled_time :: string
  status_id :: nat
  reason_for_visit :: "string option"
  appt_notes :: "string option"
  created_at :: nat
  updated_at :: nat
  cancelled_at :: "nat option"
  completed_at :: "nat option"

section \<open>The appointment model and controller\<close>

text \<open>\<open>AppointmentModel.findById\<close>: the row with that id, or \<open>null\<close>.\<close>

definition findById :: "appointment list \<Rightarrow> nat \<Rightarrow> appointment option" where
  "findById db i = find (\<lambda>a. appt_id a = i) db"

text \<open>
  \<open>AppointmentModel.checkAvailability\<close>: the count of rows of that psychologist at that
  date and time whose status is not in the ids named CANCELLED is zero. A row without
  psychologist never equals the parameter.
\<close>

definition checkAvailability :: "appointment list \<Rightarrow> nat \<Rightarrow> string \<Rightarrow> string \<Rightarrow> bool" where
  "checkAvailability db psychologistId date time =
     (length (filter (\<lambda>a. psychologist_id a = Some psychologistId
                         \<and> scheduled_date a = date
                         \<and> scheduled_time a = time
                         \<and> status_id a \<notin> set (status_ids_named [''CANCELLED''])) db) = 0)"

text \<open>The id an \<open>AUTO_INCREMENT\<close> key gives the next row: above every id in the table.\<close>

definition insertId :: "appointment list \<Rightarrow> nat" where
  "insertId db = Suc (fold max (map appt_id db) 0)"

text \<open>
  The object \<open>AppointmentModel.create\<close> receives: the validated body of the create
  request, with the \<open>status_id\<close> the controller writes into it.
\<close>

record appointmentData =
  c_student_id :: nat
  c_psychologist_id :: "nat option"
  c_scheduled_date :: string
  c_scheduled_time :: string
  c_status_id :: "nat option"
  c_reason_for_visit :: "string option"
  c_notes :: "string option"

text \<open>
  \<open>AppointmentModel.create\<close>: the status is looked up by name, ASSIGNED when a
  psychologist is given and PENDING otherwise; the row is inserted, if its student and
  psychologist are users, and read back.
\<close>

definition create ::
  "user list \<Rightarrow> appointment list \<Rightarrow> nat \<Rightarrow> appointmentData
     \<Rightarrow> error + (appointment \<times> appointment list)" where
  "create users db now d =
     (let statusName = (if truthy_num (c_psychologist_id d) then ''ASSIGNED'' else ''PENDING'')
      in case status_id_by_name statusName of
           None \<Rightarrow> Inl (AppError ''No existe status_types'')
         | Some statusId \<Rightarrow>
             if statusId = 0 then Inl (AppError ''No existe status_types'')
             else if \<not> user_exists users (c_student_id d)
                     \<or> (case c_psychologist_id d of
                           None \<Rightarrow> False
                         | Some p \<Rightarrow> \<not> user_exists users p)
               then Inl ForeignKey
             else
               let row = \<lparr> appt_id = insertId db,
                           student_id = c_student_id d,
                           psychologist_id = c_psychologist_id d,
                           scheduled_date = c_scheduled_date d,
                           scheduled_time = c_scheduled_time d,
                           status_id = statusId,
                           reason_for_visit = c_reason_for_visit d,
                           appt_notes = c_notes d,
                           created_at = now,
                           updated_at = now,
                           cancelled_at = None,
                           completed_at = None \<rparr>;
                   db' = db @ [row]
               in (case findById db' (insertId db) of
                     None \<Rightarrow> Inl (AppError ''Error al crear cita'')
                   | Some a \<Rightarrow> Inr (a, db')))"

text \<open>
  \<open>AppointmentController.createAppointment\<close>, with \<open>req.userId\<close>, \<open>req.roleId\<close> and
  \<open>req.body\<close>.
\<close>

definition createAppointment ::
  "user list \<Rightarrow> appointment list \<Rightarrow> nat \<Rightarrow> nat option \<Rightarrow> nat option \<Rightarrow> appointmentData
     \<Rightarrow> appointment response \<times> appointment list" where
  "createAppointment users db now userId roleId body =
     (if \<not> truthy_num userId then (Json 401 None, db)
      else
        let checked =
              (if \<not> truthy_num (c_psychologist_id body)
               then Some (body\<lparr>c_status_id := Some 1\<rparr>)
               else if \<not> checkAvailability db (the (c_psychologist_id body))
                          (c_scheduled_date body) (c_scheduled_time body)
               then None
               else Some (body\<lparr>c_status_id := Some 2\<rparr>))
        in case checked of
             None \<Rightarrow> (Json 409 None, db)
           | Some d \<Rightarrow>
               let d' = (if roleId = Some 3 then d\<lparr>c_student_id := the userId\<rparr> else d)
               in (case create users db now d' of
                     Inl e \<Rightarrow> (Next e, db)
                   | Inr (a, db') \<Rightarrow> (Json 201 (Some a), db')))"


definition complete_prefix :: string where
  "complete_prefix = CHR 0x0A # ''Notas de finalizaci'' @ [CHR 0xC3, CHR 0xB3] @ ''n: ''"

text \<open>
  \<open>CONCAT(IFNULL(notes, ''), IFNULL(CONCAT(prefix, ?), ''))\<close>: \<open>CONCAT\<close> with a
  \<open>NULL\<close> argument is \<open>NULL\<close>. The parameter is not \<open>undefined\<close> here.
\<close>

definition append_note :: "string option \<Rightarrow> string \<Rightarrow> string js \<Rightarrow> string" where
  "append_note old prefix param =
     (case old of None \<Rightarrow> [] | Some s \<Rightarrow> s)
       @ (case param of Val r \<Rightarrow> prefix @ r | _ \<Rightarrow> [])"

text \<open>\<open>UPDATE appointments SET ... WHERE id = ?\<close>: every row with that id is rewritten.\<close>

definition update_where_id ::
  "nat \<Rightarrow> (appointment \<Rightarrow> appointment) \<Rightarrow> appointment list \<Rightarrow> appointment list" where
  "update_where_id i f db = map (\<lambda>a. if appt_id a = i then f a else a) db"


text \<open>\<open>AppointmentModel.complete\<close>, of the same shape.\<close>

definition complete ::
  "appointment list \<Rightarrow> nat \<Rightarrow> nat \<Rightarrow> string js
     \<Rightarrow> error + (appointment option \<times> appointment list)" where
  "complete db now i notes_param =
     (if notes_param = Undefined then Inl BindUndefined
      else case status_id_by_name ''COMPLETED'' of
             None \<Rightarrow> Inl NotNullViolation
           | Some sid \<Rightarrow>
               (let db' = update_where_id i
                            (\<lambda>a. a\<lparr> status_id := sid,
                                    completed_at := Some now,
                                    appt_notes := Some (append_note (appt_notes a) complete_prefix notes_param),
                                    updated_at := now \<rparr>) db
                in Inr (findById db' i, db')))"










text \<open>The answer of a controller to what a model function returned.\<close>

definition reply ::
  "appointment list \<Rightarrow> error + (appointment option \<times> appointment list)
     \<Rightarrow> appointment response \<times> appointment list" where
  "reply db r =
     (case r of
        Inl e \<Rightarrow> (Next e, db)
      | Inr (None, db') \<Rightarrow> (Json 404 None, db')
      | Inr (Some a, db') \<Rightarrow> (Json 200 (Some a), db'))"




text \<open>\<open>AppointmentController.completeAppointment\<close>, with \<open>req.body.notes\<close>.\<close>

definition completeAppointment ::
  "appointment list \<Rightarrow> nat \<Rightarrow> nat \<Rightarrow> string js \<Rightarrow> appointment response \<times> appointment list" where
  "completeAppointment db now appointmentId notes_param =
     reply db (complete db now appointmentId notes_param)"

section \<open>Identity: tokens and the authentication middleware\<close>

text \<open>
  The interface \<open>JwtPayload\<close>; \<open>iat\<close> and \<open>exp\<close> are seconds, written by the signing.
\<close>

record jwtPayload =
  jwt_userId :: nat
  jwt_email :: string
  jwt_roleId :: nat
  iat :: "nat option"
  exp :: "nat option"

text \<open>
  The token library (\<open>jsonwebtoken\<close>) is not part of the repository. Its tokens are
  modelled symbolically: a signed token is its payload together with the secret that
  signed it, and any other text is no token. Signing stamps \<open>iat\<close> with the clock and
  \<open>exp\<close> with the clock plus the lifetime; it refuses an empty secret, which
  \<open>generateTokens\<close> never passes. Verifying refuses text that is no token, a missing or
  empty secret, a signature of another secret, and a token whose \<open>exp\<close> the clock has
  reached.
\<close>

datatype jwt = Signed jwtPayload string | Text string

datatype jwt_error = JsonWebTokenError string | TokenExpiredError

definition jwt_sign :: "jwtPayload \<Rightarrow> string \<Rightarrow> nat \<Rightarrow> nat \<Rightarrow> jwt" where
  "jwt_sign payload secret expiresIn_s now =
     Signed (payload\<lparr> iat := Some now, exp := Some (now + expiresIn_s) \<rparr>) secret"

definition jwt_verify :: "jwt \<Rightarrow> string option \<Rightarrow> nat \<Rightarrow> jwt_error + jwtPayload" where
  "jwt_verify token secret now =
     (case token of
        Text _ \<Rightarrow> Inl (JsonWebTokenError ''jwt malformed'')
      | Signed payload k \<Rightarrow>
          if \<not> truthy_str secret then Inl (JsonWebTokenError ''secret or public key must be provided'')
          else if Some k \<noteq> secret then Inl (JsonWebTokenError ''invalid signature'')
          else (case exp payload of
                  None \<Rightarrow> Inr payload
                | Some e \<Rightarrow> if e \<le> now then Inl TokenExpiredError else Inr payload))"

text \<open>
  \<open>config.jwt\<close>: the secret is the environment variable \<open>JWT_SECRET\<close>, which may be
  unset; the lifetimes are the constants "24h" and "7d", in seconds.
\<close>

definition expiresIn :: nat where
  "expiresIn = 24 * 60 * 60"

definition refreshExpiresIn :: nat where
  "refreshExpiresIn = 7 * 24 * 60 * 60"

definition fallback_secret :: string where
  "fallback_secret = ''98954c83c7c05d477560ba5a5d7692ae377204987f6d0cf879f5ddc3495a0f22''"

text \<open>\<open>(config && config.jwt && config.jwt.secret) || fallback\<close>\<close>

definition secret_or_fallback :: "string option \<Rightarrow> string" where
  "secret_or_fallback secret = (if truthy_str secret then the secret else fallback_secret)"

text \<open>\<open>generateTokens\<close>, with the configured secret and the clock.\<close>

record tokens =
  accessToken :: jwt
  refreshToken :: jwt

definition generateTokens :: "string option \<Rightarrow> nat \<Rightarrow> nat \<Rightarrow> string \<Rightarrow> nat \<Rightarrow> tokens" where
  "generateTokens secret now userId email_addr roleId =
     (let payload = \<lparr> jwt_userId = userId, jwt_email = email_addr, jwt_roleId = roleId,
                       iat = None, exp = None \<rparr>;
          jwtSecret = secret_or_fallback secret
      in \<lparr> accessToken = jwt_sign payload jwtSecret expiresIn now,
           refreshToken = jwt_sign payload jwtSecret refreshExpiresIn now \<rparr>)"

text \<open>
  \<open>verifyToken\<close>: it reads \<open>config.jwt.secret\<close> itself, with no fallback; taking
  \<open>substring\<close> of an unset secret throws inside the \<open>try\<close>, and every throw is answered
  with \<open>null\<close>.
\<close>

definition verifyToken :: "string option \<Rightarrow> nat \<Rightarrow> jwt \<Rightarrow> jwtPayload option" where
  "verifyToken secret now token =
     (case secret of
        None \<Rightarrow> None
      | Some s \<Rightarrow>
          (case jwt_verify token (Some s) now of
             Inl e \<Rightarrow> None
           | Inr decoded \<Rightarrow> Some decoded))"

text \<open>What a middleware does: \<open>next()\<close>, or a reply with a status code.\<close>

datatype 'a gate = Pass 'a | Deny nat

text \<open>
  The \<open>Authorization\<close> header as the list of its pieces between spaces
  (\<open>authHeader.split(" ")\<close>), each a token or other text. \<open>authHeader && pieces[1]\<close> is
  falsy when the header is absent, has no second piece, or the piece is empty.
\<close>

definition bearer_token :: "jwt list option \<Rightarrow> jwt option" where
  "bearer_token authHeader =
     (case authHeader of
        None \<Rightarrow> None
      | Some pieces \<Rightarrow>
          if length pieces \<le> 1 then None
          else if pieces ! 1 = Text [] then None
          else Some (pieces ! 1))"

text \<open>
  \<open>authenticateToken\<close>: the result is the user it attaches to the request
  (\<open>req.user\<close>, \<open>req.userId = user.id\<close>, \<open>req.roleId = user.role_id\<close>), or the status
  of its reply.
\<close>

definition authenticateToken ::
  "string option \<Rightarrow> user list \<Rightarrow> nat \<Rightarrow> jwt list option \<Rightarrow> user gate" where
  "authenticateToken secret users now authHeader =
     (case bearer_token authHeader of
        None \<Rightarrow> Deny 401
      | Some token \<Rightarrow>
          (case jwt_verify token (Some (secret_or_fallback secret)) now of
             Inl e \<Rightarrow> Deny 403
           | Inr decoded \<Rightarrow>
               (case UserModel_findById users (jwt_userId decoded) of
                  None \<Rightarrow> Deny 401
                | Some u \<Rightarrow> if \<not> is_active u then Deny 401 else Pass u)))"

section \<open>Authorization middleware\<close>

text \<open>What the middlewares read from the request.\<close>

record request =
  req_user :: "user option"
  req_userId :: "nat option"
  req_roleId :: "nat option"
  params_userId :: "nat option"
  params_id :: "nat option"

text \<open>The request as \<open>authenticateToken\<close> leaves it for a user.\<close>

definition authenticated :: "user \<Rightarrow> nat option \<Rightarrow> nat option \<Rightarrow> request" where
  "authenticated u p_userId p_id =
     \<lparr> req_user = Some u, req_userId = Some (user_id u), req_roleId = Some (role_id u),
       params_userId = p_userId, params_id = p_id \<rparr>"

definition roleMap :: "nat \<Rightarrow> string option" where
  "roleMap r =
     (if r = 1 then Some ''TL_MAYOR''
      else if r = 2 then Some ''PSYCHOLOGIST''
      else if r = 3 then Some ''STUDENT''
      else None)"

text \<open>\<open>requireRole\<close>\<close>

definition requireRole :: "string list \<Rightarrow> request \<Rightarrow> unit gate" where
  "requireRole allowedRoles req =
     (case req_user req of
        None \<Rightarrow> Deny 401
      | Some u \<Rightarrow>
          (case roleMap (role_id u) of
             None \<Rightarrow> Deny 403
           | Some userRoleName \<Rightarrow>
               if userRoleName \<notin> set allowedRoles then Deny 403 else Pass ()))"

text \<open>
  \<open>requireOwnershipOrRole\<close>. The owner is \<open>parseInt(req.params.userId || req.params.id)\<close>;
  the route parameters are numbers once validated, and \<open>None\<close> is the \<open>NaN\<close> of an
  absent parameter, equal to nothing.
\<close>

definition resourceUserId :: "request \<Rightarrow> nat option" where
  "resourceUserId req =
     (if truthy_num (params_userId req) then params_userId req else params_id req)"

definition requireOwnershipOrRole :: "string list \<Rightarrow> request \<Rightarrow> unit gate" where
  "requireOwnershipOrRole allowedRoles req =
     (case req_user req of
        None \<Rightarrow> Deny 401
      | Some u \<Rightarrow>
          (let userRoleName = roleMap (role_id u)
           in if userRoleName \<noteq> None \<and> the userRoleName \<in> set allowedRoles then Pass ()
              else if userRoleName = Some ''TL_MAYOR'' then Pass ()
              else if req_userId req \<noteq> None \<and> req_userId req = resourceUserId req then Pass ()
              else Deny 403))"

section \<open>The appointment routes\<close>









section \<open>The profile of the authenticated user\<close>

text \<open>
  An object of type \<open>Partial<User>\<close>: each key absent or present; the keys whose type
  admits \<open>null\<close> may carry it.
\<close>

record userPatch =
  up_id :: "nat option"
  up_email :: "string option"
  up_password_hash :: "string option"
  up_first_name :: "string option"
  up_last_name :: "string option"
  up_phone :: "string js"
  up_avatar_url :: "string js"
  up_role_id :: "nat option"
  up_is_active :: "bool option"
  up_is_verified :: "bool option"
  up_email_verified_at :: "nat js"
  up_created_at :: "nat option"
  up_updated_at :: "nat option"
  up_last_login :: "nat js"

text \<open>\<open>Object.keys(updateData).filter((key) => key !== "id")\<close>\<close>

definition user_patch_fields :: "userPatch \<Rightarrow> string list" where
  "user_patch_fields p =
     (if up_email p = None then [] else [''email''])
     @ (if up_password_hash p = None then [] else [''password_hash''])
     @ (if up_first_name p = None then [] else [''first_name''])
     @ (if up_last_name p = None then [] else [''last_name''])
     @ (if up_phone p = Undefined then [] else [''phone''])
     @ (if up_avatar_url p = Undefined then [] else [''avatar_url''])
     @ (if up_role_id p = None then [] else [''role_id''])
     @ (if up_is_active p = None then [] else [''is_active''])
     @ (if up_is_verified p = None then [] else [''is_verified''])
     @ (if up_email_verified_at p = Undefined then [] else [''email_verified_at''])
     @ (if up_created_at p = None then [] else [''created_at''])
     @ (if up_updated_at p = None then [] else [''updated_at''])
     @ (if up_last_login p = Undefined then [] else [''last_login''])"

definition set_opt :: "'a option \<Rightarrow> 'a \<Rightarrow> 'a" where
  "set_opt new old = (case new of None \<Rightarrow> old | Some v \<Rightarrow> v)"

definition set_js :: "'a js \<Rightarrow> 'a option \<Rightarrow> 'a option" where
  "set_js new old = (case new of Undefined \<Rightarrow> old | Null \<Rightarrow> None | Val v \<Rightarrow> Some v)"

text \<open>
  The \<open>SET\<close> clause of \<open>UserModel.update\<close> on one row: one assignment per field, then
  \<open>updated_at = CURRENT_TIMESTAMP\<close>.
\<close>

definition apply_user_patch :: "userPatch \<Rightarrow> nat \<Rightarrow> user \<Rightarrow> user" where
  "apply_user_patch p now u =
     u\<lparr> email := set_opt (up_email p) (email u),
        password_hash := set_opt (up_password_hash p) (password_hash u),
        first_name := set_opt (up_first_name p) (first_name u),
        last_name := set_opt (up_last_name p) (last_name u),
        phone := set_js (up_phone p) (phone u),
        avatar_url := set_js (up_avatar_url p) (avatar_url u),
        role_id := set_opt (up_role_id p) (role_id u),
        is_active := set_opt (up_is_active p) (is_active u),
        is_verified := set_opt (up_is_verified p) (is_verified u),
        email_verified_at := set_js (up_email_verified_at p) (email_verified_at u),
        user_created_at := set_opt (up_created_at p) (user_created_at u),
        last_login := set_js (up_last_login p) (last_login u),
        user_updated_at := now \<rparr>"

text \<open>
  \<open>UserModel.update\<close>. With no field the statement does not parse. The column
  \<open>email\<close> is \<open>UNIQUE\<close>: the server refuses to give a row the email of another row;
  \<open>role_id\<close> is a foreign key on \<open>roles\<close>.
\<close>

definition UserModel_update ::
  "user list \<Rightarrow> nat \<Rightarrow> nat \<Rightarrow> userPatch \<Rightarrow> error + (user option \<times> user list)" where
  "UserModel_update users now i updateData =
     (if user_patch_fields updateData = [] then Inl SqlSyntax
      else if (\<exists>u \<in> set users. user_id u = i)
              \<and> (\<exists>v \<in> set users. user_id v \<noteq> i \<and> Some (email v) = up_email updateData)
        then Inl DupEntry
      else if (\<exists>u \<in> set users. user_id u = i)
              \<and> (case up_role_id updateData of
                    None \<Rightarrow> False
                  | Some r \<Rightarrow> r \<notin> set (map fst roles_seed))
        then Inl ForeignKey
      else (let users' = map (\<lambda>u. if user_id u = i then apply_user_patch updateData now u else u) users
            in Inr (UserModel_findById users' i, users')))"

text \<open>\<open>UserModel.emailExists\<close>\<close>

definition emailExists :: "user list \<Rightarrow> string \<Rightarrow> nat option \<Rightarrow> bool" where
  "emailExists users email_addr excludeId =
     (0 < length (filter (\<lambda>u. email u = email_addr
                              \<and> (truthy_num excludeId \<longrightarrow> Some (user_id u) \<noteq> excludeId)) users))"

text \<open>
  \<open>AuthController.updateProfile\<close>, with \<open>req.userId\<close> and \<open>req.body\<close>. The body comes
  through \<open>validate(updateUserSchema)\<close>, which refuses every key the schema does not
  name, so its keys are columns of \<open>users\<close>. The data of the reply are the columns of
  the row read back.
\<close>

definition updateProfile ::
  "user list \<Rightarrow> nat \<Rightarrow> nat option \<Rightarrow> userPatch \<Rightarrow> user response \<times> user list" where
  "updateProfile users now userId body =
     (if \<not> truthy_num userId then (Json 401 None, users)
      else
        let updateData = body\<lparr> up_password_hash := None, up_role_id := None,
                               up_id := None, up_created_at := None \<rparr>
        in if truthy_str (up_email updateData)
              \<and> emailExists users (the (up_email updateData)) userId
           then (Json 409 None, users)
           else (case UserModel_update users now (the userId) updateData of
                   Inl e \<Rightarrow> (Next e, users)
                 | Inr (None, users') \<Rightarrow> (Json 404 None, users')
                 | Inr (Some u, users') \<Rightarrow> (Json 200 (Some u), users')))"

text \<open>
  The columns \<open>updateProfile\<close> deletes from the body before it updates: id, password
  hash, role and creation time of a row.
\<close>

definition sensitive :: "user \<Rightarrow> nat \<times> string \<times> nat \<times> nat" where
  "sensitive u = (user_id u, password_hash u, role_id u, user_created_at u)"

section \<open>Sample data\<close>

text \<open>A row at the slot of 2025-03-01, 09:00, with the given id, psychologist and status.\<close>

definition sample_row :: "nat \<Rightarrow> nat option \<Rightarrow> nat \<Rightarrow> appointment" where
  "sample_row i p s =
     \<lparr> appt_id = i, student_id = 10, psychologist_id = p,
       scheduled_date = ''2025-03-01'', scheduled_time = ''09:00'', status_id = s,
       reason_for_visit = None, appt_notes = None, created_at = 0, updated_at = 0,
       cancelled_at = None, completed_at = None \<rparr>"

text \<open>A create request for that slot, for student 10, with the given psychologist.\<close>

definition sample_body :: "nat option \<Rightarrow> appointmentData" where
  "sample_body p =
     \<lparr> c_student_id = 10, c_psychologist_id = p,
       c_scheduled_date = ''2025-03-01'', c_scheduled_time = ''09:00'',
       c_status_id = None, c_reason_for_visit = None, c_notes = None \<rparr>"


text \<open>
  A user with the given id, role and active flag, and a profile update; the table of a
  student 10 and a psychologist 7.
\<close>

definition sample_user :: "nat \<Rightarrow> nat \<Rightarrow> bool \<Rightarrow> user" where
  "sample_user i r active =
     \<lparr> user_id = i, email = replicate i (CHR ''u'') @ ''@b.c'', password_hash = ''hash'', first_name = ''Ana'',
       last_name = ''Diaz'', phone = None, avatar_url = None, role_id = r,
       is_active = active, is_verified = True, email_verified_at = None,
       user_created_at = 0, user_updated_at = 0, last_login = None \<rparr>"

definition sample_users :: "user list" where
  "sample_users = [sample_user 10 3 True, sample_user 7 2 True, sample_user 8 2 True]"

definition sample_user_patch :: userPatch where
  "sample_user_patch =
     \<lparr> up_id = Some 99, up_email = None, up_password_hash = Some ''forged'',
       up_first_name = Some ''Eva'', up_last_name = None, up_phone = Undefined,
       up_avatar_url = Undefined, up_role_id = Some 1, up_is_active = None,
       up_is_verified = None, up_email_verified_at = Undefined, up_created_at = Some 77,
       up_updated_at = None, up_last_login = Undefined \<rparr>"

section \<open>Properties\<close>

lemma status_ids_cancelled: "status_ids_named [''CANCELLED''] = [4]"
  by (simp add: status_ids_named_def status_types_def)

lemma status_ids:
  "status_id_by_name ''PENDING'' = Some 1"
  "status_id_by_name ''ASSIGNED'' = Some 2"
  "status_id_by_name ''COMPLETED'' = Some 3"
  "status_id_by_name ''CANCELLED'' = Some 4"
  by (simp_all add: status_id_by_name_def status_ids_named_def status_types_def)

subsection \<open>The conflict check\<close>

text \<open>
  Claim C2. For every psychologist, date and time, \<open>checkAvailability\<close> is true exactly
  when every row of that psychologist at exactly that date and time carries the status
  CANCELLED: a row there in PENDING, ASSIGNED or COMPLETED makes it false, a cancelled row
  never does, and rows at another date or time are not looked at.
\<close>

theorem checkAvailability_iff:
  "(checkAvailability db C D T \<longleftrightarrow>
      (\<forall>a \<in> set db. psychologist_id a = Some C \<and> scheduled_date a = D \<and> scheduled_time a = T
          \<longrightarrow> Some (status_id a) = status_id_by_name ''CANCELLED''))
   \<and> (\<forall>a \<in> set db. psychologist_id a = Some C \<and> scheduled_date a = D \<and> scheduled_time a = T
          \<and> Some (status_id a) \<in> {status_id_by_name ''PENDING'', status_id_by_name ''ASSIGNED'',
                                    status_id_by_name ''COMPLETED''}
          \<longrightarrow> \<not> checkAvailability db C D T)"
  by (auto simp: checkAvailability_def status_ids_cancelled status_ids filter_empty_conv)

theorem checkAvailability_iff_witness:
  "checkAvailability [sample_row 1 (Some 7) 4] 7 ''2025-03-01'' ''09:00''
   \<and> \<not> checkAvailability [sample_row 1 (Some 7) 4, sample_row 2 (Some 7) 3] 7 ''2025-03-01'' ''09:00''
   \<and> checkAvailability [sample_row 2 (Some 7) 3] 7 ''2025-03-01'' ''09:30''"
  using checkAvailability_iff [of "[sample_row 1 (Some 7) 4]" 7 "''2025-03-01''" "''09:00''"]
        checkAvailability_iff [of "[sample_row 1 (Some 7) 4, sample_row 2 (Some 7) 3]" 7
                                  "''2025-03-01''" "''09:00''"]
        checkAvailability_iff [of "[sample_row 2 (Some 7) 3]" 7 "''2025-03-01''" "''09:30''"]
  by (simp add: sample_row_def status_ids)

subsection \<open>Creating an appointment\<close>

lemma fold_max_ge: "(m::nat) \<le> fold max xs m"
  by (induction xs arbitrary: m) (auto intro: order_trans [OF max.cobounded2])

lemma fold_max_mem: "x \<in> set xs \<Longrightarrow> (x::nat) \<le> fold max xs m"
proof (induction xs arbitrary: m)
  case Nil
  then show ?case by simp
next
  case (Cons y ys)
  show ?case
  proof (cases "x = y")
    case True
    have "x \<le> max y m" using True by simp
    also have "\<dots> \<le> fold max ys (max y m)" by (rule fold_max_ge)
    finally show ?thesis by simp
  next
    case False
    with Cons.prems have "x \<in> set ys" by simp
    then show ?thesis using Cons.IH by simp
  qed
qed

lemma insertId_fresh: "a \<in> set db \<Longrightarrow> appt_id a < insertId db"
  unfolding insertId_def using fold_max_mem [of "appt_id a" "map appt_id db" 0] by auto

lemma find_append_None: "find P xs = None \<Longrightarrow> find P (xs @ ys) = find P ys"
  by (induction xs) (auto split: if_splits)

lemma findById_append_fresh:
  "appt_id row = insertId db \<Longrightarrow> findById (db @ [row]) (insertId db) = Some row"
proof -
  assume r: "appt_id row = insertId db"
  have "find (\<lambda>a. appt_id a = insertId db) db = None"
    using insertId_fresh [of _ db] by (fastforce simp: find_None_iff)
  then show ?thesis using r by (simp add: findById_def find_append_None)
qed

lemma create_result:
  assumes "user_exists users (c_student_id d)"
    and "case c_psychologist_id d of None \<Rightarrow> True | Some p \<Rightarrow> user_exists users p"
  shows "\<exists>a. create users db now d = Inr (a, db @ [a])
       \<and> status_id a = (if truthy_num (c_psychologist_id d) then 2 else 1)
       \<and> psychologist_id a = c_psychologist_id d
       \<and> student_id a = c_student_id d
       \<and> scheduled_date a = c_scheduled_date d
       \<and> scheduled_time a = c_scheduled_time d"
  using assms
  by (simp add: create_def status_ids findById_append_fresh Let_def split: option.splits)

lemma status_names:
  "status_name 1 = Some ''PENDING''"
  "status_name 2 = Some ''ASSIGNED''"
  "status_name 3 = Some ''COMPLETED''"
  "status_name 4 = Some ''CANCELLED''"
  by (simp_all add: status_name_def status_types_def)

text \<open>
  Claim C3. For every create request of an authenticated caller whose student and
  psychologist are users: without a psychologist the appointment is created with status
  id 1, the row of \<open>status_types\<close> named PENDING; with a psychologist whose slot passes
  the conflict check it is created with status id 2, the row named ASSIGNED, for that
  psychologist; with a psychologist whose slot fails the check the reply is 409 and the
  table is unchanged. In both cases of success the new row is the one row added to the
  table.
\<close>

theorem createAppointment_status:
  assumes auth: "truthy_num userId"
    and student: "user_exists users (if roleId = Some 3 then the userId else c_student_id body)"
    and psych: "case c_psychologist_id body of None \<Rightarrow> True | Some p \<Rightarrow> user_exists users p"
  shows "(\<not> truthy_num (c_psychologist_id body) \<longrightarrow>
            (\<exists>a. createAppointment users db now userId roleId body = (Json 201 (Some a), db @ [a])
                 \<and> status_id a = 1
                 \<and> status_name (status_id a) = Some ''PENDING''
                 \<and> Some (status_id a) = status_id_by_name ''PENDING''
                 \<and> Some (status_id a) \<noteq> status_id_by_name ''ASSIGNED''))
       \<and> (truthy_num (c_psychologist_id body)
            \<and> checkAvailability db (the (c_psychologist_id body))
                 (c_scheduled_date body) (c_scheduled_time body) \<longrightarrow>
            (\<exists>a. createAppointment users db now userId roleId body = (Json 201 (Some a), db @ [a])
                 \<and> status_id a = 2
                 \<and> status_name (status_id a) = Some ''ASSIGNED''
                 \<and> Some (status_id a) = status_id_by_name ''ASSIGNED''
                 \<and> Some (status_id a) \<noteq> status_id_by_name ''PENDING''
                 \<and> psychologist_id a = c_psychologist_id body))
       \<and> (truthy_num (c_psychologist_id body)
            \<and> \<not> checkAvailability db (the (c_psychologist_id body))
                   (c_scheduled_date body) (c_scheduled_time body) \<longrightarrow>
            createAppointment users db now userId roleId body = (Json 409 None, db))"
proof (intro conjI impI)
  assume np: "\<not> truthy_num (c_psychologist_id body)"
  let ?d = "if roleId = Some 3 then (body\<lparr>c_status_id := Some 1\<rparr>)\<lparr>c_student_id := the userId\<rparr>
            else body\<lparr>c_status_id := Some 1\<rparr>"
  have p: "c_psychologist_id ?d = c_psychologist_id body" by simp
  have st: "user_exists users (c_student_id ?d)"
    using student by (cases "roleId = Some 3") simp_all
  have ps: "case c_psychologist_id ?d of None \<Rightarrow> True | Some p \<Rightarrow> user_exists users p"
    using psych p by simp
  obtain a where a: "create users db now ?d = Inr (a, db @ [a])"
      "status_id a = (if truthy_num (c_psychologist_id ?d) then 2 else 1)"
    using create_result [OF st ps, of db now] by blast
  have "createAppointment users db now userId roleId body = (Json 201 (Some a), db @ [a])"
    using auth np a(1) by (simp add: createAppointment_def Let_def del: One_nat_def)
  moreover have "status_id a = 1" using a(2) np p by simp
  ultimately show "\<exists>a. createAppointment users db now userId roleId body = (Json 201 (Some a), db @ [a])
                 \<and> status_id a = 1
                 \<and> status_name (status_id a) = Some ''PENDING''
                 \<and> Some (status_id a) = status_id_by_name ''PENDING''
                 \<and> Some (status_id a) \<noteq> status_id_by_name ''ASSIGNED''"
    using status_ids status_names by auto
next
  assume h: "truthy_num (c_psychologist_id body)
            \<and> checkAvailability db (the (c_psychologist_id body))
                 (c_scheduled_date body) (c_scheduled_time body)"
  let ?d = "if roleId = Some 3 then (body\<lparr>c_status_id := Some 2\<rparr>)\<lparr>c_student_id := the userId\<rparr>
            else body\<lparr>c_status_id := Some 2\<rparr>"
  have p: "c_psychologist_id ?d = c_psychologist_id body" by simp
  have st: "user_exists users (c_student_id ?d)"
    using student by (cases "roleId = Some 3") simp_all
  have ps: "case c_psychologist_id ?d of None \<Rightarrow> True | Some p \<Rightarrow> user_exists users p"
    using psych p by simp
  obtain a where a: "create users db now ?d = Inr (a, db @ [a])"
      "status_id a = (if truthy_num (c_psychologist_id ?d) then 2 else 1)"
      "psychologist_id a = c_psychologist_id ?d"
    using create_result [OF st ps, of db now] by blast
  have "createAppointment users db now userId roleId body = (Json 201 (Some a), db @ [a])"
    using auth h a(1) by (simp add: createAppointment_def Let_def del: One_nat_def)
  moreover have "status_id a = 2" using a(2) h p by simp
  moreover have "psychologist_id a = c_psychologist_id body" using a(3) p by simp
  ultimately show "\<exists>a. createAppointment users db now userId roleId body = (Json 201 (Some a), db @ [a])
                 \<and> status_id a = 2
                 \<and> status_name (status_id a) = Some ''ASSIGNED''
                 \<and> Some (status_id a) = status_id_by_name ''ASSIGNED''
                 \<and> Some (status_id a) \<noteq> status_id_by_name ''PENDING''
                 \<and> psychologist_id a = c_psychologist_id body"
    using status_ids status_names by auto
next
  assume "truthy_num (c_psychologist_id body)
            \<and> \<not> checkAvailability db (the (c_psychologist_id body))
                   (c_scheduled_date body) (c_scheduled_time body)"
  then show "createAppointment users db now userId roleId body = (Json 409 None, db)"
    using auth by (simp add: createAppointment_def Let_def)
qed

lemma sample_users_exist:
  "user_exists sample_users 10" "user_exists sample_users 7" "user_exists sample_users 8"
  by (simp_all add: user_exists_def UserModel_findById_def sample_users_def sample_user_def)

theorem createAppointment_status_witness:
  "truthy_num (Some 10)
   \<and> user_exists sample_users 10 \<and> user_exists sample_users 7
   \<and> createAppointment sample_users [] 5 (Some 10) (Some 3) (sample_body None)
        = (Json 201 (Some ((sample_row 1 None 1)\<lparr>created_at := 5, updated_at := 5\<rparr>)),
           [(sample_row 1 None 1)\<lparr>created_at := 5, updated_at := 5\<rparr>])
   \<and> createAppointment sample_users [] 5 (Some 10) (Some 3) (sample_body (Some 7))
        = (Json 201 (Some ((sample_row 1 (Some 7) 2)\<lparr>created_at := 5, updated_at := 5\<rparr>)),
           [(sample_row 1 (Some 7) 2)\<lparr>created_at := 5, updated_at := 5\<rparr>])
   \<and> status_name 1 = Some ''PENDING'' \<and> status_name 2 = Some ''ASSIGNED''
   \<and> createAppointment sample_users [sample_row 1 (Some 7) 2] 5 (Some 10) (Some 3)
        (sample_body (Some 7))
        = (Json 409 None, [sample_row 1 (Some 7) 2])"
proof -
  have auth: "truthy_num (Some 10)" by (simp add: truthy_num_def)
  have st: "user_exists sample_users (if Some 3 = Some (3::nat) then the (Some 10)
                                      else c_student_id b)" for b
    by (simp add: sample_users_exist)
  have ps0: "case c_psychologist_id (sample_body None) of None \<Rightarrow> True
             | Some p \<Rightarrow> user_exists sample_users p"
    by (simp add: sample_body_def)
  have ps7: "case c_psychologist_id (sample_body (Some 7)) of None \<Rightarrow> True
             | Some p \<Rightarrow> user_exists sample_users p"
    by (simp add: sample_body_def sample_users_exist)
  have free: "checkAvailability [] 7 ''2025-03-01'' ''09:00''"
    by (simp add: checkAvailability_def)
  have taken: "\<not> checkAvailability [sample_row 1 (Some 7) 2] 7 ''2025-03-01'' ''09:00''"
    by (simp add: checkAvailability_def sample_row_def status_ids_cancelled)
  have free': "checkAvailability [] (the (c_psychologist_id (sample_body (Some 7))))
                 (c_scheduled_date (sample_body (Some 7))) (c_scheduled_time (sample_body (Some 7)))"
    using free by (simp add: sample_body_def)
  have b0: "\<not> truthy_num (c_psychologist_id (sample_body None))"
    by (simp add: sample_body_def truthy_num_def)
  have b7: "truthy_num (c_psychologist_id (sample_body (Some 7)))
            \<and> the (c_psychologist_id (sample_body (Some 7))) = 7
            \<and> c_psychologist_id (sample_body (Some 7)) = Some 7
            \<and> c_scheduled_date (sample_body (Some 7)) = ''2025-03-01''
            \<and> c_scheduled_time (sample_body (Some 7)) = ''09:00''"
    by (simp add: sample_body_def truthy_num_def)
  have e1: "\<exists>a. createAppointment sample_users [] 5 (Some 10) (Some 3) (sample_body None)
            = (Json 201 (Some a), [a])
          \<and> status_id a = 1 \<and> status_name (status_id a) = Some ''PENDING''"
    using createAppointment_status [OF auth st ps0, of "[]" 5] b0
    by auto
  have e2: "\<exists>a. createAppointment sample_users [] 5 (Some 10) (Some 3) (sample_body (Some 7))
            = (Json 201 (Some a), [a])
          \<and> status_id a = 2 \<and> status_name (status_id a) = Some ''ASSIGNED''
          \<and> psychologist_id a = c_psychologist_id (sample_body (Some 7))"
    using createAppointment_status [OF auth st ps7, of "[]" 5] b7 free'
    by auto
  have r1: "createAppointment sample_users [] 5 (Some 10) (Some 3) (sample_body None)
        = (Json 201 (Some ((sample_row 1 None 1)\<lparr>created_at := 5, updated_at := 5\<rparr>)),
           [(sample_row 1 None 1)\<lparr>created_at := 5, updated_at := 5\<rparr>])"
    using e1 sample_users_exist
    by (simp add: createAppointment_def create_def status_ids findById_def insertId_def
          sample_body_def sample_row_def truthy_num_def Let_def)
  have r2: "createAppointment sample_users [] 5 (Some 10) (Some 3) (sample_body (Some 7))
        = (Json 201 (Some ((sample_row 1 (Some 7) 2)\<lparr>created_at := 5, updated_at := 5\<rparr>)),
           [(sample_row 1 (Some 7) 2)\<lparr>created_at := 5, updated_at := 5\<rparr>])"
    using e2 sample_users_exist free
    by (simp add: createAppointment_def create_def status_ids findById_def insertId_def
          sample_body_def sample_row_def truthy_num_def Let_def)
  have n: "status_name 1 = Some ''PENDING'' \<and> status_name 2 = Some ''ASSIGNED''"
    using e1 e2 by auto
  have c3: "createAppointment sample_users [sample_row 1 (Some 7) 2] 5 (Some 10) (Some 3)
        (sample_body (Some 7))
        = (Json 409 None, [sample_row 1 (Some 7) 2])"
    using createAppointment_status [OF auth st ps7, of "[sample_row 1 (Some 7) 2]" 5] b7 taken
    by (simp add: truthy_num_def)
  show ?thesis using auth sample_users_exist r1 r2 n c3 by blast
qed

subsection \<open>Transitions out of a terminal state\<close>

lemma findById_id: "findById db i = Some a \<Longrightarrow> appt_id a = i"
  by (induction db) (auto simp: findById_def split: if_splits)

lemma findById_update_where_id:
  assumes "findById db i = Some a" and "\<And>x. appt_id (f x) = appt_id x"
  shows "findById (update_where_id i f db) i = Some (f a)"
  using assms(1)
  by (induction db) (auto simp: findById_def update_where_id_def assms(2) split: if_splits)


lemma complete_found:
  assumes "findById db i = Some a" and "notes_param \<noteq> Undefined"
  shows "completeAppointment db now i notes_param =
           (Json 200 (Some (a\<lparr> status_id := 3, completed_at := Some now,
                               appt_notes := Some (append_note (appt_notes a) complete_prefix notes_param),
                               updated_at := now \<rparr>)),
            update_where_id i (\<lambda>a. a\<lparr> status_id := 3, completed_at := Some now,
                               appt_notes := Some (append_note (appt_notes a) complete_prefix notes_param),
                               updated_at := now \<rparr>) db)"
  using assms
  by (simp add: completeAppointment_def complete_def reply_def status_ids Let_def
        findById_update_where_id)





subsection \<open>Completing an appointment\<close>

text \<open>
  Claim C4, as the code has it. For every stored appointment in PENDING or ASSIGNED
  status, completing it with a notes value given answers 200: the row becomes COMPLETED,
  its completion time is the clock, and the notes are appended to its notes. PENDING is
  completed like ASSIGNED; the present status is not read.
\<close>

theorem complete_pending_or_assigned:
  assumes found: "findById db i = Some a"
    and status: "Some (status_id a) = status_id_by_name ''PENDING''
               \<or> Some (status_id a) = status_id_by_name ''ASSIGNED''"
    and given: "notes_param \<noteq> Undefined"
  shows "\<exists>a' db'. completeAppointment db now i notes_param = (Json 200 (Some a'), db')
           \<and> findById db' i = Some a'
           \<and> Some (status_id a') = status_id_by_name ''COMPLETED''
           \<and> completed_at a' = Some now
           \<and> appt_notes a' = Some (append_note (appt_notes a) complete_prefix notes_param)"
  using complete_found [OF found given, of now]
  by (simp add: status_ids findById_update_where_id [OF found])

theorem complete_pending_or_assigned_witness:
  "findById [sample_row 1 None 1] 1 = Some (sample_row 1 None 1)
   \<and> Some (status_id (sample_row 1 None 1)) = status_id_by_name ''PENDING''
   \<and> (\<exists>a' db'. completeAppointment [sample_row 1 None 1] 5 1 (Val ''done'') = (Json 200 (Some a'), db')
          \<and> findById db' 1 = Some a'
          \<and> Some (status_id a') = status_id_by_name ''COMPLETED''
          \<and> completed_at a' = Some 5
          \<and> appt_notes a' = Some (complete_prefix @ ''done''))"
proof -
  have f: "findById [sample_row 1 None 1] 1 = Some (sample_row 1 None 1)"
    by (simp add: findById_def sample_row_def)
  have s1: "Some (status_id (sample_row 1 None 1)) = status_id_by_name ''PENDING''"
    by (simp add: sample_row_def status_ids)
  then have s: "Some (status_id (sample_row 1 None 1)) = status_id_by_name ''PENDING''
              \<or> Some (status_id (sample_row 1 None 1)) = status_id_by_name ''ASSIGNED''"
    by simp
  have g: "Val ''done'' \<noteq> (Undefined :: string js)" by simp
  have n: "append_note (appt_notes (sample_row 1 None 1)) complete_prefix (Val ''done'')
             = complete_prefix @ ''done''"
    by (simp add: append_note_def sample_row_def)
  show ?thesis
    using complete_pending_or_assigned [OF f s g, of 5] f s1 n by simp
qed

text \<open>
  Against claim C4 as stated: completing a PENDING appointment, which has no
  psychologist, answers 200 and the row becomes COMPLETED.
\<close>

theorem complete_pending_counterexample:
  "Some (status_id (sample_row 1 None 1)) = status_id_by_name ''PENDING''
   \<and> completeAppointment [sample_row 1 None 1] 5 1 (Val ''done'')
       = (Json 200 (Some ((sample_row 1 None 3)
                           \<lparr> completed_at := Some 5, appt_notes := Some (complete_prefix @ ''done''),
                             updated_at := 5 \<rparr>)),
          [(sample_row 1 None 3)
             \<lparr> completed_at := Some 5, appt_notes := Some (complete_prefix @ ''done''),
               updated_at := 5 \<rparr>])
   \<and> Some (status_id (sample_row 1 None 3)) = status_id_by_name ''COMPLETED''"
  by (simp add: completeAppointment_def complete_def reply_def status_ids Let_def
        update_where_id_def findById_def sample_row_def append_note_def)

subsection \<open>The generic update\<close>










subsection \<open>Ownership or role\<close>



subsection \<open>Authentication\<close>

lemma requireRole_denies_403:
  "req_user req \<noteq> None \<Longrightarrow> requireRole roles req = Deny c \<Longrightarrow> c = 403"
  by (auto simp: requireRole_def split: option.splits if_splits)

lemma requireOwnershipOrRole_denies_403:
  "req_user req \<noteq> None \<Longrightarrow> requireOwnershipOrRole roles req = Deny c \<Longrightarrow> c = 403"
  by (auto simp: requireOwnershipOrRole_def Let_def split: option.splits if_splits)

text \<open>
  Claim C6, as the code has it. A request without bearer token is answered 401, and so is
  a verified token whose user is absent or inactive. A token that does not verify, a text
  that is no token, a token of another secret or an expired token, is answered 403, the
  status the role middlewares give an authenticated user they refuse.
\<close>

theorem authenticateToken_status:
  "(bearer_token h = None \<longrightarrow> authenticateToken secret users now h = Deny 401)
   \<and> (bearer_token h = Some t \<and> jwt_verify t (Some (secret_or_fallback secret)) now = Inl e \<longrightarrow>
          authenticateToken secret users now h = Deny 403)
   \<and> (bearer_token h = Some (Text s) \<longrightarrow> authenticateToken secret users now h = Deny 403)
   \<and> (bearer_token h = Some (Signed p k) \<and> k \<noteq> secret_or_fallback secret \<longrightarrow>
          authenticateToken secret users now h = Deny 403)
   \<and> (bearer_token h = Some (Signed p k) \<and> exp p = Some x \<and> x \<le> now \<longrightarrow>
          authenticateToken secret users now h = Deny 403)
   \<and> (bearer_token h = Some t \<and> jwt_verify t (Some (secret_or_fallback secret)) now = Inr d
        \<and> (\<forall>u. UserModel_findById users (jwt_userId d) = Some u \<longrightarrow> \<not> is_active u) \<longrightarrow>
          authenticateToken secret users now h = Deny 401)
   \<and> (bearer_token h = Some t \<and> jwt_verify t (Some (secret_or_fallback secret)) now = Inr d
        \<and> UserModel_findById users (jwt_userId d) = Some u \<and> is_active u \<longrightarrow>
          authenticateToken secret users now h = Pass u)
   \<and> (req_user req \<noteq> None \<and> requireRole roles req = Deny c \<longrightarrow> c = 403)
   \<and> (req_user req \<noteq> None \<and> requireOwnershipOrRole roles req = Deny c \<longrightarrow> c = 403)"
proof -
  have 1: "bearer_token h = None \<longrightarrow> authenticateToken secret users now h = Deny 401"
    by (simp add: authenticateToken_def)
  have 2: "bearer_token h = Some t \<and> jwt_verify t (Some (secret_or_fallback secret)) now = Inl e \<longrightarrow>
          authenticateToken secret users now h = Deny 403"
    by (simp add: authenticateToken_def)
  have 3: "bearer_token h = Some (Text s) \<longrightarrow> authenticateToken secret users now h = Deny 403"
    by (simp add: authenticateToken_def jwt_verify_def)
  have 4: "bearer_token h = Some (Signed p k) \<and> k \<noteq> secret_or_fallback secret \<longrightarrow>
          authenticateToken secret users now h = Deny 403"
    by (simp add: authenticateToken_def jwt_verify_def)
  have 5: "bearer_token h = Some (Signed p k) \<and> exp p = Some x \<and> x \<le> now \<longrightarrow>
          authenticateToken secret users now h = Deny 403"
    by (simp add: authenticateToken_def jwt_verify_def)
  have 6: "bearer_token h = Some t \<and> jwt_verify t (Some (secret_or_fallback secret)) now = Inr d
        \<and> (\<forall>u. UserModel_findById users (jwt_userId d) = Some u \<longrightarrow> \<not> is_active u) \<longrightarrow>
          authenticateToken secret users now h = Deny 401"
    by (auto simp: authenticateToken_def split: option.splits)
  have 7: "bearer_token h = Some t \<and> jwt_verify t (Some (secret_or_fallback secret)) now = Inr d
        \<and> UserModel_findById users (jwt_userId d) = Some u \<and> is_active u \<longrightarrow>
          authenticateToken secret users now h = Pass u"
    by (simp add: authenticateToken_def)
  have 8: "req_user req \<noteq> None \<and> requireRole roles req = Deny c \<longrightarrow> c = 403"
    using requireRole_denies_403 by blast
  have 9: "req_user req \<noteq> None \<and> requireOwnershipOrRole roles req = Deny c \<longrightarrow> c = 403"
    using requireOwnershipOrRole_denies_403 by blast
  show ?thesis using 1 2 3 4 5 6 7 8 9 by blast
qed


lemmas auth_eval =
  authenticateToken_def bearer_token_def jwt_verify_def generateTokens_def jwt_sign_def
  secret_or_fallback_def fallback_secret_def truthy_str_def expiresIn_def
  UserModel_findById_def sample_user_def Let_def

theorem authenticateToken_status_witness:
  "authenticateToken (Some ''k'') [sample_user 1 3 True] 100 None = Deny 401
   \<and> authenticateToken (Some ''k'') [sample_user 1 3 True] 100 (Some [Text ''Bearer'', Text ''abc'']) = Deny 403
   \<and> authenticateToken (Some ''k'') [sample_user 1 3 True] 86500
        (Some [Text ''Bearer'', accessToken (generateTokens (Some ''k'') 100 1 ''a@b.c'' 3)]) = Deny 403
   \<and> authenticateToken (Some ''k'') [sample_user 1 3 False] 200
        (Some [Text ''Bearer'', accessToken (generateTokens (Some ''k'') 100 1 ''a@b.c'' 3)]) = Deny 401
   \<and> authenticateToken (Some ''k'') [sample_user 1 3 True] 200
        (Some [Text ''Bearer'', accessToken (generateTokens (Some ''k'') 100 1 ''a@b.c'' 3)])
        = Pass (sample_user 1 3 True)
   \<and> requireRole [''TL_MAYOR''] (authenticated (sample_user 1 3 True) None None) = Deny 403"
proof -
  let ?tok = "accessToken (generateTokens (Some ''k'') 100 1 ''a@b.c'' 3)"
  let ?pay = "\<lparr> jwt_userId = 1, jwt_email = ''a@b.c'', jwt_roleId = 3,
                 iat = Some 100, exp = Some 86500 \<rparr>"
  have tok: "?tok = Signed ?pay ''k''"
    by (simp add: generateTokens_def jwt_sign_def secret_or_fallback_def truthy_str_def
          expiresIn_def Let_def)
  have b0: "bearer_token None = None" by (simp add: bearer_token_def)
  have b1: "bearer_token (Some [Text ''Bearer'', Text ''abc'']) = Some (Text ''abc'')"
    by (simp add: bearer_token_def)
  have b2: "bearer_token (Some [Text ''Bearer'', ?tok]) = Some (Signed ?pay ''k'')"
    using tok by (simp add: bearer_token_def)
  have v: "jwt_verify (Signed ?pay ''k'') (Some (secret_or_fallback (Some ''k''))) 200 = Inr ?pay"
    by (simp add: jwt_verify_def secret_or_fallback_def truthy_str_def)
  have x: "exp ?pay = Some 86500 \<and> (86500::nat) \<le> 86500" by simp
  have inactive: "\<forall>u. UserModel_findById [sample_user 1 3 False] (jwt_userId ?pay) = Some u
                    \<longrightarrow> \<not> is_active u"
    by (simp add: UserModel_findById_def sample_user_def)
  have active: "UserModel_findById [sample_user 1 3 True] (jwt_userId ?pay) = Some (sample_user 1 3 True)
                \<and> is_active (sample_user 1 3 True)"
    by (simp add: UserModel_findById_def sample_user_def)
  have r: "req_user (authenticated (sample_user 1 3 True) None None) \<noteq> None
           \<and> requireRole [''TL_MAYOR''] (authenticated (sample_user 1 3 True) None None) = Deny 403"
    by (simp add: authenticated_def requireRole_def roleMap_def sample_user_def)
  have c1: "authenticateToken (Some ''k'') [sample_user 1 3 True] 100 None = Deny 401"
    using authenticateToken_status [where h = None and secret = "Some ''k''"
                                      and users = "[sample_user 1 3 True]" and now = 100] b0
    by blast
  have c2: "authenticateToken (Some ''k'') [sample_user 1 3 True] 100
              (Some [Text ''Bearer'', Text ''abc'']) = Deny 403"
    using authenticateToken_status [where h = "Some [Text ''Bearer'', Text ''abc'']"
                                      and secret = "Some ''k''"
                                      and users = "[sample_user 1 3 True]" and now = 100
                                      and s = "''abc''"] b1
    by blast
  have c3: "authenticateToken (Some ''k'') [sample_user 1 3 True] 86500
              (Some [Text ''Bearer'', ?tok]) = Deny 403"
    using authenticateToken_status [where h = "Some [Text ''Bearer'', ?tok]"
                                      and secret = "Some ''k''"
                                      and users = "[sample_user 1 3 True]" and now = 86500
                                      and p = ?pay and k = "''k''" and x = 86500] b2 x
    by blast
  have c4: "authenticateToken (Some ''k'') [sample_user 1 3 False] 200
              (Some [Text ''Bearer'', ?tok]) = Deny 401"
    using authenticateToken_status [where h = "Some [Text ''Bearer'', ?tok]"
                                      and secret = "Some ''k''"
                                      and users = "[sample_user 1 3 False]" and now = 200
                                      and t = "Signed ?pay ''k''" and d = ?pay] b2 v inactive
    by blast
  have c5: "authenticateToken (Some ''k'') [sample_user 1 3 True] 200
              (Some [Text ''Bearer'', ?tok]) = Pass (sample_user 1 3 True)"
    using authenticateToken_status [where h = "Some [Text ''Bearer'', ?tok]"
                                      and secret = "Some ''k''"
                                      and users = "[sample_user 1 3 True]" and now = 200
                                      and t = "Signed ?pay ''k''" and d = ?pay
                                      and u = "sample_user 1 3 True"] b2 v active
    by blast
  show ?thesis using c1 c2 c3 c4 c5 r by blast
qed

text \<open>
  Against claim C6 as stated: a request whose token has expired, and one whose token is
  no token at all, are answered 403, not 401; the STUDENT refused by a role list gets the
  same 403.
\<close>

theorem authenticateToken_invalid_counterexample:
  "authenticateToken (Some ''k'') [sample_user 1 3 True] 86500
        (Some [Text ''Bearer'', accessToken (generateTokens (Some ''k'') 100 1 ''a@b.c'' 3)]) = Deny 403
   \<and> authenticateToken (Some ''k'') [sample_user 1 3 True] 100
        (Some [Text ''Bearer'', Text ''abc'']) = Deny 403
   \<and> authenticateToken (Some ''k'') [sample_user 1 3 True] 200
        (Some [Text ''Bearer'', accessToken (generateTokens (Some ''k'') 100 1 ''a@b.c'' 3)])
        = Pass (sample_user 1 3 True)
   \<and> requireRole [''TL_MAYOR''] (authenticated (sample_user 1 3 True) None None) = Deny 403"
  by (simp add: auth_eval authenticated_def requireRole_def roleMap_def)

subsection \<open>The coordinator on the appointment routes\<close>





subsection \<open>The token round trip\<close>

lemma generateTokens_access:
  "accessToken (generateTokens secret now userId email_addr roleId)
     = Signed \<lparr> jwt_userId = userId, jwt_email = email_addr, jwt_roleId = roleId,
                iat = Some now, exp = Some (now + expiresIn) \<rparr> (secret_or_fallback secret)"
  by (simp add: generateTokens_def jwt_sign_def Let_def)

text \<open>
  With a secret configured and not empty, the round trip of claim C9 holds: until the
  lifetime has passed \<open>verifyToken\<close> gives back the payload that was signed, with the
  id and role, and from then on it gives \<open>null\<close>.
\<close>

lemma verifyToken_roundtrip_configured:
  assumes "s \<noteq> []"
  shows "verifyToken (Some s) t (accessToken (generateTokens (Some s) now userId email_addr roleId))
           = (if t < now + expiresIn
              then Some \<lparr> jwt_userId = userId, jwt_email = email_addr, jwt_roleId = roleId,
                          iat = Some now, exp = Some (now + expiresIn) \<rparr>
              else None)"
  using assms
  by (simp add: generateTokens_access verifyToken_def jwt_verify_def secret_or_fallback_def
        truthy_str_def)

text \<open>
  Claim C9 fails where no secret is configured. \<open>generateTokens\<close> then signs with the
  fallback secret, and \<open>authenticateToken\<close>, which has the same fallback, accepts the
  token; \<open>verifyToken\<close> has no fallback and answers \<open>null\<close> for the token just issued,
  long before its lifetime has passed. The same happens with an empty secret.
\<close>

theorem verifyToken_rejects_issued_token:
  "verifyToken None 100 (accessToken (generateTokens None 100 1 ''a@b.c'' 3)) = None
   \<and> verifyToken (Some []) 100 (accessToken (generateTokens (Some []) 100 1 ''a@b.c'' 3)) = None
   \<and> authenticateToken None [sample_user 1 3 True] 100
        (Some [Text ''Bearer'', accessToken (generateTokens None 100 1 ''a@b.c'' 3)])
        = Pass (sample_user 1 3 True)"
  by (simp add: generateTokens_access verifyToken_def auth_eval)

subsection \<open>The profile update\<close>

lemma apply_user_patch_frame:
  assumes "up_password_hash p = None" "up_role_id p = None" "up_created_at p = None"
  shows "password_hash (apply_user_patch p now u) = password_hash u
       \<and> role_id (apply_user_patch p now u) = role_id u
       \<and> user_id (apply_user_patch p now u) = user_id u
       \<and> user_created_at (apply_user_patch p now u) = user_created_at u"
  using assms by (simp add: apply_user_patch_def set_opt_def)

lemma UserModel_update_frame:
  assumes "up_password_hash p = None" "up_role_id p = None" "up_created_at p = None"
    and "UserModel_update users now i p = Inr (r, users')"
  shows "map sensitive users' = map sensitive users"
  using assms(4) apply_user_patch_frame [OF assms(1-3)]
  by (auto simp: UserModel_update_def Let_def sensitive_def split: if_splits)

text \<open>
  Claim C10. For every user table, caller and request body, \<open>updateProfile\<close> leaves
  the id, the password hash, the role and the creation time of every row as they were,
  whatever the body carries under these keys; in particular those of the caller's row.
\<close>

theorem updateProfile_frame:
  "map sensitive (snd (updateProfile users now userId body)) = map sensitive users
   \<and> map_option sensitive (UserModel_findById (snd (updateProfile users now userId body)) i)
       = map_option sensitive (UserModel_findById users i)"
proof -
  let ?d = "body\<lparr> up_password_hash := None, up_role_id := None,
                   up_id := None, up_created_at := None \<rparr>"
  have a: "map sensitive (snd (updateProfile users now userId body)) = map sensitive users"
  proof (cases "UserModel_update users now (the userId) ?d")
    case (Inl e)
    then show ?thesis by (simp add: updateProfile_def Let_def)
  next
    case (Inr x)
    obtain r users' where x: "x = (r, users')" by (cases x)
    have "map sensitive users' = map sensitive users"
      by (rule UserModel_update_frame [of ?d users now "the userId" r users'])
         (simp_all add: Inr x)
    then show ?thesis using Inr x
      by (cases r) (simp_all add: updateProfile_def Let_def)
  qed
  have b: "map_option sensitive (UserModel_findById xs i) = map_option sensitive (UserModel_findById ys i)"
    if "map sensitive xs = map sensitive ys" for xs ys
    using that
  proof (induction xs arbitrary: ys)
    case Nil
    then show ?case by simp
  next
    case (Cons x xs)
    then obtain y ys' where ys: "ys = y # ys'" by (cases ys) auto
    with Cons.prems have h: "sensitive x = sensitive y" "map sensitive xs = map sensitive ys'"
      by simp_all
    from h(1) have "user_id x = user_id y" by (simp add: sensitive_def)
    then show ?case using Cons.IH [OF h(2)] h(1) ys
      by (simp add: UserModel_findById_def)
  qed
  show ?thesis using a b [OF a] by simp
qed

theorem updateProfile_frame_witness:
  "fst (updateProfile [sample_user 1 3 True] 5 (Some 1) sample_user_patch)
     = Json 200 (Some ((sample_user 1 3 True)\<lparr>first_name := ''Eva'', user_updated_at := 5\<rparr>))
   \<and> map sensitive (snd (updateProfile [sample_user 1 3 True] 5 (Some 1) sample_user_patch))
       = [(1, ''hash'', 3, 0)]"
proof -
  have "fst (updateProfile [sample_user 1 3 True] 5 (Some 1) sample_user_patch)
     = Json 200 (Some ((sample_user 1 3 True)\<lparr>first_name := ''Eva'', user_updated_at := 5\<rparr>))"
    by (simp add: updateProfile_def UserModel_update_def user_patch_fields_def
          apply_user_patch_def set_opt_def set_js_def UserModel_findById_def emailExists_def
          truthy_num_def truthy_str_def sample_user_def sample_user_patch_def Let_def)
  moreover have "map sensitive [sample_user 1 3 True] = [(1, ''hash'', 3, 0)]"
    by (simp add: sensitive_def sample_user_def)
  ultimately show ?thesis
    using updateProfile_frame [of "[sample_user 1 3 True]" 5 "Some 1" sample_user_patch 1]
    by simp
qed

end
